theory Spec2Isabelle
  imports Main "HOL-Library.Word" "HOL-Library.AList"
begin

section \<open>Go runtime and standard library, as far as csi/iscsi.go uses them\<close>

text \<open>
  A Go \<open>string\<close> is a byte sequence; it is modelled as \<open>string\<close> (a list of
  8-bit characters). A run-time panic is a value of its own, kept apart from the
  \<open>error\<close> values that the functions return.
\<close>

datatype panic = SliceBoundsOutOfRange nat nat | IndexOutOfRange nat nat

datatype num_error = ErrSyntax | ErrRange

text \<open>
  \<open>Errorf msg\<close> is the value of \<open>fmt.Errorf(msg)\<close>; \<open>NumError fn num e\<close> is
  the \<open>*strconv.NumError\<close> that \<open>strconv.Atoi\<close> returns.
\<close>

datatype error = Errorf string | NumError string string num_error

subsection \<open>Package strings\<close>

fun HasPrefix :: "string \<Rightarrow> string \<Rightarrow> bool" where
  "HasPrefix s [] = True"
| "HasPrefix [] (p # ps) = False"
| "HasPrefix (c # cs) (p # ps) = (c = p \<and> HasPrefix cs ps)"

text \<open>\<open>strings.Contains(s, substr)\<close>: \<open>substr\<close> occurs somewhere within \<open>s\<close>.\<close>

fun Contains :: "string \<Rightarrow> string \<Rightarrow> bool" where
  "Contains [] substr = (substr = [])"
| "Contains (c # cs) substr = (HasPrefix (c # cs) substr \<or> Contains cs substr)"

text \<open>
  \<open>strings.Split(s, sep)\<close> for a separator of one byte, which is what every call
  in csi/iscsi.go passes (\<open>"/"\<close>, \<open>","\<close> and \<open>":"\<close>): the substrings between the
  separators, in order. The empty string splits into one empty substring.
\<close>

fun Split :: "string \<Rightarrow> char \<Rightarrow> string list" where
  "Split [] sep = [[]]"
| "Split (c # cs) sep =
     (if c = sep then [] # Split cs sep
      else (case Split cs sep of [] \<Rightarrow> [[c]] | t # ts \<Rightarrow> (c # t) # ts))"

subsection \<open>Package strconv\<close>

definition isDigit :: "char \<Rightarrow> bool" where
  "isDigit c = (48 \<le> (of_char c :: nat) \<and> (of_char c :: nat) \<le> 57)"

definition digitVal :: "char \<Rightarrow> nat" where
  "digitVal c = of_char c - 48"

text \<open>
  The digit loop of \<open>strconv.ParseUint\<close> in base 10: a byte that is no digit is a
  syntax error, a value beyond \<open>maxVal\<close> a range error, whichever comes first.
\<close>

fun parseDigits :: "nat \<Rightarrow> nat \<Rightarrow> string \<Rightarrow> num_error + nat" where
  "parseDigits maxVal n [] = Inr n"
| "parseDigits maxVal n (c # cs) =
     (if \<not> isDigit c then Inl ErrSyntax
      else if 10 * n + digitVal c > maxVal then Inl ErrRange
      else parseDigits maxVal (10 * n + digitVal c) cs)"

definition ParseUint :: "nat \<Rightarrow> string \<Rightarrow> num_error + nat" where
  "ParseUint bitSize s = (if s = [] then Inl ErrSyntax else parseDigits (2 ^ bitSize - 1) 0 s)"

text \<open>
  \<open>strconv.Atoi(s)\<close>, where \<open>intSize\<close> is the width of the platform's \<open>int\<close>
  (\<open>strconv.IntSize\<close>, 32 or 64): an optional sign, then decimal digits, and the
  value must fit the signed \<open>int\<close>. The Go \<open>int\<close> is modelled as an \<open>int\<close> within
  that range.
\<close>

definition Atoi :: "nat \<Rightarrow> string \<Rightarrow> error + int" where
  "Atoi intSize s =
     (if s = [] then Inl (NumError ''Atoi'' s ErrSyntax)
      else
        let neg = (hd s = CHR ''-'');
            ds = (if hd s = CHR ''+'' \<or> hd s = CHR ''-'' then tl s else s)
        in (case ParseUint intSize ds of
              Inl e \<Rightarrow> Inl (NumError ''Atoi'' s e)
            | Inr un \<Rightarrow>
                if \<not> neg \<and> un \<ge> 2 ^ (intSize - 1) then Inl (NumError ''Atoi'' s ErrRange)
                else if neg \<and> un > 2 ^ (intSize - 1) then Inl (NumError ''Atoi'' s ErrRange)
                else Inr (if neg then - int un else int un)))"

subsection \<open>Maps from string to string\<close>

text \<open>
  A Go \<open>map[string]string\<close> is modelled as an association list read with
  \<open>map_of\<close>; the nil map and the empty map are both \<open>[]\<close> (Go's \<open>len\<close> and lookup do
  not tell them apart). \<open>len_map\<close> is Go's \<open>len\<close>: the number of keys.
\<close>

type_synonym secret_map = "(string \<times> string) list"

definition len_map :: "secret_map \<Rightarrow> nat" where
  "len_map m = length (remdups (map fst m))"

text \<open>
  \<open>json.Unmarshal\<close> into a \<open>map[string]string\<close> belongs to package encoding/json
  and is a parameter of the model: a function from the blob to \<open>None\<close> (the error
  is not nil) or to the decoded map.
\<close>

type_synonym unmarshal = "string \<Rightarrow> secret_map option"

section \<open>csi/iscsi.go\<close>

record iscsiContext =
  TargetPortal :: string
  IQN :: string
  Lun :: string
  Portals_ctx :: string
  Secret :: string
  ISCSIInterface :: string
  InitiatorName_ctx :: string
  DiscoveryCHAPAuth :: string
  SessionCHAPAuth :: string

text \<open>\<open>iscsiLib.Secrets\<close>, \<open>iscsiLib.TargetInfo\<close> and the fields of
  \<open>iscsiLib.Connector\<close> that \<open>buildISCSIConnector\<close> sets (the others keep their
  zero values).\<close>

record Secrets =
  SecretsType :: string
  UserName :: string
  Password :: string
  UserNameIn :: string
  PasswordIn :: string

record TargetInfo =
  Iqn_target :: string
  Port :: string
  Portal :: string

record Connector =
  VolumeName :: string
  Targets :: "TargetInfo list"
  TargetIqn :: string
  TargetPortals :: "string list"
  Lun_conn :: "32 word"
  Multipath :: bool
  DoDiscovery :: bool
  SessionSecrets :: Secrets
  DiscoverySecrets :: Secrets

record iscsiDisk =
  Portals :: "string list"
  Iqn :: string
  lun :: "32 word"
  Iface :: string
  chapDiscovery :: bool
  chapSession :: bool
  secret :: secret_map
  sessionSecret :: Secrets
  discoverySecret :: Secrets
  InitiatorName :: string
  VolName :: string

text \<open>The part of \<open>csi.NodePublishVolumeRequest\<close> that \<open>getISCSIInfo\<close> reads.\<close>

record NodePublishVolumeRequest =
  VolumeId :: string

text \<open>The zero value \<open>iscsiLib.Secrets{}\<close>.\<close>

definition emptySecrets :: Secrets where
  "emptySecrets = \<lparr>SecretsType = [], UserName = [], Password = [], UserNameIn = [], PasswordIn = []\<rparr>"

definition defaultPort :: string where
  "defaultPort = ''3260''"

text \<open>
  \<open>parseISCSIEndpoint\<close> returns the four results of the Go function, or the panic
  of the slice expression \<open>endpoint[0:8]\<close> on a string of fewer than 8 bytes.
\<close>

definition parseISCSIEndpoint :: "string \<Rightarrow> panic + (string \<times> string \<times> string \<times> error option)" where
  "parseISCSIEndpoint endpoint =
     (if length endpoint < 8 then Inl (SliceBoundsOutOfRange 8 (length endpoint))
      else if take 8 endpoint \<noteq> ''iscsi://''
        then Inr ([], [], [], Some (Errorf ''endpoint does not start with iscsi://''))
      else
        let toks = Split (drop 8 endpoint) (CHR ''/'') in
        if length toks \<noteq> 3 then Inr ([], [], [], Some (Errorf ''invalid iscsi endpoint''))
        else Inr (toks ! 0, toks ! 1, toks ! 2, None))"

definition portalMounter :: "string \<Rightarrow> string" where
  "portalMounter portal = (if \<not> Contains portal '':'' then portal @ '':3260'' else portal)"

definition parseSecret :: "unmarshal \<Rightarrow> string \<Rightarrow> secret_map" where
  "parseSecret unmarshal secretParams =
     (case unmarshal secretParams of None \<Rightarrow> [] | Some m \<Rightarrow> m)"

text \<open>
  Both extractors return the pair of the Go function: the \<open>Secrets\<close> value and the
  error (\<open>None\<close> for nil).
\<close>

definition parseSessionSecret :: "secret_map \<Rightarrow> Secrets \<times> error option" where
  "parseSessionSecret secretParams =
     (if len_map secretParams = 0 then (emptySecrets, None)
      else case map_of secretParams ''node.session.auth.username'' of
        None \<Rightarrow> (emptySecrets, Some (Errorf ''node.session.auth.username not found in secret''))
      | Some u \<Rightarrow>
      (case map_of secretParams ''node.session.auth.password'' of
        None \<Rightarrow> (emptySecrets, Some (Errorf ''node.session.auth.password not found in secret''))
      | Some p \<Rightarrow>
      (case map_of secretParams ''node.session.auth.username_in'' of
        None \<Rightarrow> (emptySecrets, Some (Errorf ''node.session.auth.username_in not found in secret''))
      | Some ui \<Rightarrow>
      (case map_of secretParams ''node.session.auth.password_in'' of
        None \<Rightarrow> (emptySecrets, Some (Errorf ''node.session.auth.password_in not found in secret''))
      | Some pi \<Rightarrow>
          (\<lparr>SecretsType = ''chap'', UserName = u, Password = p, UserNameIn = ui, PasswordIn = pi\<rparr>,
           None)))))"

definition parseDiscoverySecret :: "secret_map \<Rightarrow> Secrets \<times> error option" where
  "parseDiscoverySecret secretParams =
     (if len_map secretParams = 0 then (emptySecrets, None)
      else case map_of secretParams ''node.sendtargets.auth.username'' of
        None \<Rightarrow> (emptySecrets, Some (Errorf ''node.sendtargets.auth.username not found in secret''))
      | Some u \<Rightarrow>
      (case map_of secretParams ''node.sendtargets.auth.password'' of
        None \<Rightarrow> (emptySecrets, Some (Errorf ''node.sendtargets.auth.password not found in secret''))
      | Some p \<Rightarrow>
      (case map_of secretParams ''node.sendtargets.auth.username_in'' of
        None \<Rightarrow> (emptySecrets, Some (Errorf ''node.sendtargets.auth.username_in not found in secret''))
      | Some ui \<Rightarrow>
      (case map_of secretParams ''node.sendtargets.auth.password_in'' of
        None \<Rightarrow> (emptySecrets, Some (Errorf ''node.sendtargets.auth.password_in not found in secret''))
      | Some pi \<Rightarrow>
          (\<lparr>SecretsType = ''chap'', UserName = u, Password = p, UserNameIn = ui, PasswordIn = pi\<rparr>,
           None)))))"

text \<open>The loop \<open>for _, portal := range portals { bkportal = append(bkportal, ...) }\<close>.\<close>

fun appendPortals :: "string list \<Rightarrow> string list \<Rightarrow> string list" where
  "appendPortals bkportal [] = bkportal"
| "appendPortals bkportal (portal # portals) =
     appendPortals (bkportal @ [portalMounter portal]) portals"

text \<open>
  \<open>getISCSIInfo\<close> returns \<open>Inl err\<close> for the Go result \<open>(nil, err)\<close> and \<open>Inr disk\<close>
  for \<open>(&disk, nil)\<close>. The statements are in the order of the source: the target
  check, the two secret extractions, the portals, the flags, the LUN. The
  conversion \<open>int32(l)\<close> keeps the low 32 bits.
\<close>

definition getISCSIInfo ::
  "unmarshal \<Rightarrow> nat \<Rightarrow> NodePublishVolumeRequest \<Rightarrow> iscsiContext \<Rightarrow> error + iscsiDisk" where
  "getISCSIInfo unmarshal intSize req ctx =
     (let volName = VolumeId req; tp = TargetPortal ctx; iqn = IQN ctx; lunStr = Lun ctx in
      if tp = [] \<or> iqn = [] \<or> lunStr = [] then Inl (Errorf ''iSCSI target information is missing'')
      else
        let portalList = Portals_ctx ctx;
            sec = parseSecret unmarshal (Secret ctx)
        in (case parseSessionSecret sec of
          (_, Some err) \<Rightarrow> Inl err
        | (sessionSec, None) \<Rightarrow>
        (case parseDiscoverySecret sec of
          (_, Some err) \<Rightarrow> Inl err
        | (discoverySec, None) \<Rightarrow>
            let bkportal = [portalMounter tp];
                portals = Split portalList (CHR '','')
            in if length portals = 0 then Inl (Errorf ''no portals provided'')
            else
              let bkportal = appendPortals bkportal portals;
                  chapDisc = (DiscoveryCHAPAuth ctx = ''true'');
                  chapSess = (SessionCHAPAuth ctx = ''true'')
              in (case (if lunStr \<noteq> [] then Atoi intSize lunStr else Inr 0) of
                    Inl err \<Rightarrow> Inl err
                  | Inr l \<Rightarrow>
                      Inr \<lparr>Portals = bkportal, Iqn = iqn, lun = word_of_int l,
                           Iface = ISCSIInterface ctx, chapDiscovery = chapDisc,
                           chapSession = chapSess, secret = sec,
                           sessionSecret = sessionSec, discoverySecret = discoverySec,
                           InitiatorName = InitiatorName_ctx ctx, VolName = volName\<rparr>))))"

text \<open>
  One iteration of the target loop of \<open>buildISCSIConnector\<close>; \<open>toks[0]\<close> and
  \<open>toks[1]\<close> panic when the index is out of range.
\<close>

definition buildTarget :: "string \<Rightarrow> string \<Rightarrow> panic + TargetInfo" where
  "buildTarget iqn portal =
     (if Contains portal '':'' then
        (case Split portal (CHR '':'') of
           [] \<Rightarrow> Inl (IndexOutOfRange 0 0)
         | [t0] \<Rightarrow> Inl (IndexOutOfRange 1 1)
         | t0 # t1 # _ \<Rightarrow> Inr \<lparr>Iqn_target = iqn, Port = t1, Portal = t0\<rparr>)
      else Inr \<lparr>Iqn_target = iqn, Port = defaultPort, Portal = portal\<rparr>)"

fun buildTargets :: "string \<Rightarrow> TargetInfo list \<Rightarrow> string list \<Rightarrow> panic + TargetInfo list" where
  "buildTargets iqn targets [] = Inr targets"
| "buildTargets iqn targets (portal # portals) =
     (case buildTarget iqn portal of
        Inl p \<Rightarrow> Inl p
      | Inr t \<Rightarrow> buildTargets iqn (targets @ [t]) portals)"

definition buildISCSIConnector :: "iscsiDisk \<Rightarrow> panic + Connector" where
  "buildISCSIConnector iscsiInfo =
     (case buildTargets (Iqn iscsiInfo) [] (Portals iscsiInfo) of
        Inl p \<Rightarrow> Inl p
      | Inr targets \<Rightarrow>
          let c = \<lparr>VolumeName = VolName iscsiInfo, Targets = targets,
                   TargetIqn = Iqn iscsiInfo, TargetPortals = Portals iscsiInfo,
                   Lun_conn = lun iscsiInfo, Multipath = (length (Portals iscsiInfo) > 1),
                   DoDiscovery = True, SessionSecrets = emptySecrets,
                   DiscoverySecrets = emptySecrets\<rparr>
          in Inr (if sessionSecret iscsiInfo \<noteq> emptySecrets then
                    let c = c\<lparr>SessionSecrets := sessionSecret iscsiInfo\<rparr> in
                    if discoverySecret iscsiInfo \<noteq> emptySecrets
                    then c\<lparr>DiscoverySecrets := discoverySecret iscsiInfo\<rparr>
                    else c
                  else c))"

subsection \<open>The names the specification gives to the error values\<close>

definition MalformedEndpoint :: "error \<Rightarrow> bool" where
  "MalformedEndpoint err =
     (err = Errorf ''endpoint does not start with iscsi://'' \<or> err = Errorf ''invalid iscsi endpoint'')"

definition MissingTargetInfo :: error where
  "MissingTargetInfo = Errorf ''iSCSI target information is missing''"

definition NoPortalsProvided :: error where
  "NoPortalsProvided = Errorf ''no portals provided''"

definition InvalidLun :: "error \<Rightarrow> bool" where
  "InvalidLun err = (case err of NumError fn num e \<Rightarrow> True | Errorf msg \<Rightarrow> False)"

definition IncompleteCredentialScope :: "string \<Rightarrow> error" where
  "IncompleteCredentialScope field = Errorf (field @ '' not found in secret'')"

text \<open>The four fields of each scope, in the order in which the extractors look them up.\<close>

definition sessionFields :: "string list" where
  "sessionFields =
     [''node.session.auth.username'', ''node.session.auth.password'',
      ''node.session.auth.username_in'', ''node.session.auth.password_in'']"

definition discoveryFields :: "string list" where
  "discoveryFields =
     [''node.sendtargets.auth.username'', ''node.sendtargets.auth.password'',
      ''node.sendtargets.auth.username_in'', ''node.sendtargets.auth.password_in'']"

definition missing :: "secret_map \<Rightarrow> string \<Rightarrow> bool" where
  "missing m field = (map_of m field = None)"

text \<open>The scope that holds the values that \<open>m\<close> gives to the four fields \<open>fs\<close>.\<close>

definition populated :: "secret_map \<Rightarrow> string list \<Rightarrow> Secrets" where
  "populated m fs =
     \<lparr>SecretsType = ''chap'',
      UserName = the (map_of m (fs ! 0)), Password = the (map_of m (fs ! 1)),
      UserNameIn = the (map_of m (fs ! 2)), PasswordIn = the (map_of m (fs ! 3))\<rparr>"

section \<open>A decoder for concrete credential blobs\<close>

text \<open>
  To run the model on concrete blobs, \<open>jsonUnmarshal\<close> instantiates the decoder
  parameter. It follows \<open>json.Unmarshal\<close> into a \<open>map[string]string\<close> on JSON
  text: \<open>null\<close> decodes to the nil map, an object whose values are strings or
  \<open>null\<close> decodes to its members (a later duplicate key replaces the earlier
  value, \<open>null\<close> stores the empty string), and every other text is an error
  (malformed JSON is a syntax error, any other value a type error). It is a
  scanner over the bytes, one state per position of the grammar. Two things
  differ from encoding/json: the escapes \<open>\uXXXX\<close> are not decoded (a blob that
  has one is rejected here), and bytes that are no valid UTF-8 are kept as they
  are. None of the concrete blobs below has either, and the general theorems
  hold for every decoder.
\<close>

datatype jstate =
    JStart
  | JTopNull string
  | JOpen
  | JKey secret_map string bool
  | JColon secret_map string
  | JVal secret_map string
  | JStr secret_map string string bool
  | JNull secret_map string string
  | JNext secret_map
  | JComma secret_map
  | JEnd secret_map

definition isSpace :: "char \<Rightarrow> bool" where
  "isSpace c = (c = CHR '' '' \<or> c = CHR 0x09 \<or> c = CHR 0x0A \<or> c = CHR 0x0D)"

definition unescape :: "char \<Rightarrow> char option" where
  "unescape c =
     (if c = CHR 0x22 \<or> c = CHR 0x5C \<or> c = CHR ''/'' then Some c
      else if c = CHR ''b'' then Some (CHR 0x08)
      else if c = CHR ''f'' then Some (CHR 0x0C)
      else if c = CHR ''n'' then Some (CHR 0x0A)
      else if c = CHR ''r'' then Some (CHR 0x0D)
      else if c = CHR ''t'' then Some (CHR 0x09)
      else None)"

fun jstep :: "jstate \<Rightarrow> char \<Rightarrow> jstate option" where
  "jstep JStart c =
     (if isSpace c then Some JStart
      else if c = CHR ''{'' then Some JOpen
      else if c = CHR ''n'' then Some (JTopNull ''ull'')
      else None)"
| "jstep (JTopNull r) c =
     (case r of
        [] \<Rightarrow> None
      | x # xs \<Rightarrow> if c \<noteq> x then None else if xs = [] then Some (JEnd []) else Some (JTopNull xs))"
| "jstep JOpen c =
     (if isSpace c then Some JOpen
      else if c = CHR 0x22 then Some (JKey [] [] False)
      else if c = CHR ''}'' then Some (JEnd [])
      else None)"
| "jstep (JKey m k esc) c =
     (if esc then map_option (\<lambda>d. JKey m (d # k) False) (unescape c)
      else if c = CHR 0x22 then Some (JColon m (rev k))
      else if c = CHR 0x5C then Some (JKey m k True)
      else if (of_char c :: nat) < 32 then None
      else Some (JKey m (c # k) False))"
| "jstep (JColon m k) c =
     (if isSpace c then Some (JColon m k)
      else if c = CHR '':'' then Some (JVal m k)
      else None)"
| "jstep (JVal m k) c =
     (if isSpace c then Some (JVal m k)
      else if c = CHR 0x22 then Some (JStr m k [] False)
      else if c = CHR ''n'' then Some (JNull m k ''ull'')
      else None)"
| "jstep (JStr m k v esc) c =
     (if esc then map_option (\<lambda>d. JStr m k (d # v) False) (unescape c)
      else if c = CHR 0x22 then Some (JNext (AList.update k (rev v) m))
      else if c = CHR 0x5C then Some (JStr m k v True)
      else if (of_char c :: nat) < 32 then None
      else Some (JStr m k (c # v) False))"
| "jstep (JNull m k r) c =
     (case r of
        [] \<Rightarrow> None
      | x # xs \<Rightarrow>
          if c \<noteq> x then None
          else if xs = [] then Some (JNext (AList.update k [] m))
          else Some (JNull m k xs))"
| "jstep (JNext m) c =
     (if isSpace c then Some (JNext m)
      else if c = CHR '','' then Some (JComma m)
      else if c = CHR ''}'' then Some (JEnd m)
      else None)"
| "jstep (JComma m) c =
     (if isSpace c then Some (JComma m)
      else if c = CHR 0x22 then Some (JKey m [] False)
      else None)"
| "jstep (JEnd m) c = (if isSpace c then Some (JEnd m) else None)"

fun jrun :: "jstate \<Rightarrow> string \<Rightarrow> jstate option" where
  "jrun st [] = Some st"
| "jrun st (c # cs) = (case jstep st c of None \<Rightarrow> None | Some st' \<Rightarrow> jrun st' cs)"

definition jsonUnmarshal :: unmarshal where
  "jsonUnmarshal s = (case jrun JStart s of Some (JEnd m) \<Rightarrow> Some m | _ \<Rightarrow> None)"

text \<open>The JSON text of an object whose keys and values need no escapes.\<close>

definition quoted :: "string \<Rightarrow> string" where
  "quoted s = CHR 0x22 # s @ [CHR 0x22]"

fun jsonMembers :: "secret_map \<Rightarrow> string" where
  "jsonMembers [] = []"
| "jsonMembers [(k, v)] = quoted k @ '':'' @ quoted v"
| "jsonMembers ((k, v) # kvs) = quoted k @ '':'' @ quoted v @ '','' @ jsonMembers kvs"

definition jsonObject :: "secret_map \<Rightarrow> string" where
  "jsonObject kvs = ''{'' @ jsonMembers kvs @ ''}''"

section \<open>Concrete requests\<close>

definition exampleReq :: NodePublishVolumeRequest where
  "exampleReq = \<lparr>VolumeId = ''vol-1''\<rparr>"

definition exampleCtx :: iscsiContext where
  "exampleCtx =
     \<lparr>TargetPortal = ''10.0.0.1'', IQN = ''iqn.2020-01.test:disk1'', Lun = ''0'',
      Portals_ctx = ''10.0.0.1,10.0.0.2'', Secret = [], ISCSIInterface = [],
      InitiatorName_ctx = [], DiscoveryCHAPAuth = [], SessionCHAPAuth = []\<rparr>"

definition sessionMembers :: secret_map where
  "sessionMembers =
     [(''node.session.auth.username'', ''u1''), (''node.session.auth.password'', ''p1''),
      (''node.session.auth.username_in'', ''u2''), (''node.session.auth.password_in'', ''p2'')]"

definition discoveryMembers :: secret_map where
  "discoveryMembers =
     [(''node.sendtargets.auth.username'', ''du1''), (''node.sendtargets.auth.password'', ''dp1''),
      (''node.sendtargets.auth.username_in'', ''du2''), (''node.sendtargets.auth.password_in'', ''dp2'')]"

definition chapSecrets :: Secrets where
  "chapSecrets =
     \<lparr>SecretsType = ''chap'', UserName = ''du1'', Password = ''dp1'', UserNameIn = ''du2'',
      PasswordIn = ''dp2''\<rparr>"

text \<open>A descriptor that has the discovery scope and no session scope.\<close>

definition discoveryOnlyDisk :: iscsiDisk where
  "discoveryOnlyDisk =
     \<lparr>Portals = [''10.0.0.1:3260''], Iqn = ''iqn.2020-01.test:disk1'', lun = 0, Iface = [],
      chapDiscovery = True, chapSession = False, secret = [], sessionSecret = emptySecrets,
      discoverySecret = chapSecrets, InitiatorName = [], VolName = ''vol-1''\<rparr>"

section \<open>Library facts\<close>

lemma len_map_0 [simp]: "(len_map m = 0) = (m = [])"
  by (cases m) (auto simp: len_map_def)

lemma Contains_single: "Contains s [c] = (c \<in> set s)"
  by (induction s) auto

lemma Split_not_Nil: "Split s sep \<noteq> []"
  by (induction s) (auto split: list.splits)

text \<open>A split has one substring more than the string has separators.\<close>

lemma length_Split: "length (Split s sep) = Suc (length (filter (\<lambda>c. c = sep) s))"
  by (induction s) (auto split: list.splits simp: Split_not_Nil)

lemma Split_two: "sep \<in> set s \<Longrightarrow> \<exists>t0 t1 ts. Split s sep = t0 # t1 # ts"
proof -
  assume "sep \<in> set s"
  then have "filter (\<lambda>c. c = sep) s \<noteq> []"
    by (auto simp: filter_empty_conv)
  then have "2 \<le> length (Split s sep)"
    by (cases "filter (\<lambda>c. c = sep) s") (simp_all add: length_Split)
  then show ?thesis
    by (cases "Split s sep"; cases "tl (Split s sep)") auto
qed

lemma Atoi_Nil: "Atoi n [] = Inl (NumError ''Atoi'' [] ErrSyntax)"
  by (simp add: Atoi_def)

lemma Atoi_error: "Atoi n s = Inl e \<Longrightarrow> InvalidLun e"
  by (auto simp: Atoi_def InvalidLun_def Let_def split: if_splits sum.splits)

lemmas run_json = jsonUnmarshal_def jsonObject_def quoted_def isSpace_def unescape_def

lemmas run_ctx = exampleCtx_def exampleReq_def Atoi_def ParseUint_def isDigit_def digitVal_def
  parseSecret_def parseSessionSecret_def parseDiscoverySecret_def emptySecrets_def

text \<open>The decoder on the blobs that the concrete requests carry.\<close>

lemma decode_session: "jsonUnmarshal (jsonObject sessionMembers) = Some sessionMembers"
  by (simp add: run_json sessionMembers_def)

lemma decode_both:
  "jsonUnmarshal (jsonObject (sessionMembers @ discoveryMembers)) = Some (sessionMembers @ discoveryMembers)"
  by (simp add: run_json sessionMembers_def discoveryMembers_def)

lemma decode_partial:
  "jsonUnmarshal (jsonObject [(''node.session.auth.username'', ''u1'')]) =
     Some [(''node.session.auth.username'', ''u1'')]"
  by (simp add: run_json)

section \<open>The functions of csi/iscsi.go, unfolded\<close>

lemma appendPortals_map: "appendPortals bkportal portals = bkportal @ map portalMounter portals"
  by (induction portals arbitrary: bkportal) auto

text \<open>The first missing field decides the error of an extractor.\<close>

lemma parseSessionSecret_find:
  "parseSessionSecret m =
     (if m = [] then (emptySecrets, None)
      else case find (missing m) sessionFields of
        Some f \<Rightarrow> (emptySecrets, Some (IncompleteCredentialScope f))
      | None \<Rightarrow> (populated m sessionFields, None))"
  by (auto simp: parseSessionSecret_def sessionFields_def missing_def populated_def
      IncompleteCredentialScope_def split: option.splits)

lemma parseDiscoverySecret_find:
  "parseDiscoverySecret m =
     (if m = [] then (emptySecrets, None)
      else case find (missing m) discoveryFields of
        Some f \<Rightarrow> (emptySecrets, Some (IncompleteCredentialScope f))
      | None \<Rightarrow> (populated m discoveryFields, None))"
  by (auto simp: parseDiscoverySecret_def discoveryFields_def missing_def populated_def
      IncompleteCredentialScope_def split: option.splits)

lemma populated_not_empty: "populated m fs \<noteq> emptySecrets"
  by (simp add: populated_def emptySecrets_def)

text \<open>
  \<open>getISCSIInfo\<close> as one chain of checks: the check \<open>len(portals) == 0\<close> has gone,
  since a split is never empty.
\<close>

lemma getISCSIInfo_unfold:
  "getISCSIInfo u n req ctx =
     (if TargetPortal ctx = [] \<or> IQN ctx = [] \<or> Lun ctx = [] then Inl MissingTargetInfo
      else case snd (parseSessionSecret (parseSecret u (Secret ctx))) of
        Some err \<Rightarrow> Inl err
      | None \<Rightarrow>
      (case snd (parseDiscoverySecret (parseSecret u (Secret ctx))) of
        Some err \<Rightarrow> Inl err
      | None \<Rightarrow>
      (case Atoi n (Lun ctx) of
        Inl err \<Rightarrow> Inl err
      | Inr l \<Rightarrow>
          Inr \<lparr>Portals = portalMounter (TargetPortal ctx) #
                   map portalMounter (Split (Portals_ctx ctx) (CHR '','')),
               Iqn = IQN ctx, lun = word_of_int l, Iface = ISCSIInterface ctx,
               chapDiscovery = (DiscoveryCHAPAuth ctx = ''true''),
               chapSession = (SessionCHAPAuth ctx = ''true''),
               secret = parseSecret u (Secret ctx),
               sessionSecret = fst (parseSessionSecret (parseSecret u (Secret ctx))),
               discoverySecret = fst (parseDiscoverySecret (parseSecret u (Secret ctx))),
               InitiatorName = InitiatorName_ctx ctx, VolName = VolumeId req\<rparr>)))"
proof -
  obtain s se where s: "parseSessionSecret (parseSecret u (Secret ctx)) = (s, se)"
    by fastforce
  obtain d de where d: "parseDiscoverySecret (parseSecret u (Secret ctx)) = (d, de)"
    by fastforce
  show ?thesis
    by (cases se; cases de; cases "Atoi n (Lun ctx)")
      (simp_all add: getISCSIInfo_def Let_def s d MissingTargetInfo_def appendPortals_map
        Split_not_Nil)
qed

lemma find_missing:
  "find P fs = Some f \<Longrightarrow> f \<in> set fs \<and> P f"
  by (auto simp: find_Some_iff)

lemma parseSessionSecret_error:
  "snd (parseSessionSecret m) = Some e \<Longrightarrow>
     m \<noteq> [] \<and> (\<exists>f\<in>set sessionFields. missing m f \<and> e = IncompleteCredentialScope f)"
  by (auto simp: parseSessionSecret_find split: if_splits option.splits dest: find_missing)

lemma parseDiscoverySecret_error:
  "snd (parseDiscoverySecret m) = Some e \<Longrightarrow>
     m \<noteq> [] \<and> (\<exists>f\<in>set discoveryFields. missing m f \<and> e = IncompleteCredentialScope f)"
  by (auto simp: parseDiscoverySecret_find split: if_splits option.splits dest: find_missing)

text \<open>The four ways in which \<open>getISCSIInfo\<close> fails, in the order of the source.\<close>

lemma getISCSIInfo_error_cases:
  assumes "getISCSIInfo u n req ctx = Inl e"
  shows "e = MissingTargetInfo \<and> (TargetPortal ctx = [] \<or> IQN ctx = [] \<or> Lun ctx = []) \<or>
         snd (parseSessionSecret (parseSecret u (Secret ctx))) = Some e \<or>
         snd (parseSessionSecret (parseSecret u (Secret ctx))) = None \<and>
           snd (parseDiscoverySecret (parseSecret u (Secret ctx))) = Some e \<or>
         snd (parseSessionSecret (parseSecret u (Secret ctx))) = None \<and>
           snd (parseDiscoverySecret (parseSecret u (Secret ctx))) = None \<and>
           Atoi n (Lun ctx) = Inl e"
  using assms
  by (auto simp: getISCSIInfo_unfold split: if_splits option.splits sum.splits)

text \<open>The index expressions of the target loop stay in range: no portal makes it panic.\<close>

lemma buildTarget_total: "\<exists>t. buildTarget iqn portal = Inr t"
proof (cases "Contains portal '':''")
  case True
  then obtain t0 t1 ts where "Split portal (CHR '':'') = t0 # t1 # ts"
    using Split_two [of "CHR '':''" portal] by (auto simp: Contains_single)
  with True show ?thesis by (simp add: buildTarget_def)
next
  case False
  then show ?thesis by (simp add: buildTarget_def)
qed

lemma buildTargets_total:
  "\<exists>ts. buildTargets iqn targets portals = Inr ts \<and> length ts = length targets + length portals"
proof (induction portals arbitrary: targets)
  case Nil
  then show ?case by simp
next
  case (Cons p ps)
  obtain t where t: "buildTarget iqn p = Inr t"
    using buildTarget_total by blast
  from Cons [of "targets @ [t]"] t show ?case by auto
qed

section \<open>EndpointParser\<close>

text \<open>
  On an endpoint of 8 bytes or more \<open>parseISCSIEndpoint\<close> does what the
  specification says: an error without the prefix \<open>iscsi://\<close>, an error unless
  the rest splits into three segments, and the three segments otherwise.
\<close>

lemma parseISCSIEndpoint_prefixed:
  assumes "8 \<le> length endpoint"
  shows "(take 8 endpoint \<noteq> ''iscsi://'' \<longrightarrow>
           (\<exists>err. parseISCSIEndpoint endpoint = Inr ([], [], [], Some err) \<and> MalformedEndpoint err)) \<and>
         (take 8 endpoint = ''iscsi://'' \<and> length (Split (drop 8 endpoint) (CHR ''/'')) \<noteq> 3 \<longrightarrow>
           (\<exists>err. parseISCSIEndpoint endpoint = Inr ([], [], [], Some err) \<and> MalformedEndpoint err)) \<and>
         (take 8 endpoint = ''iscsi://'' \<and> Split (drop 8 endpoint) (CHR ''/'') = [portal, iqn, l] \<longrightarrow>
           parseISCSIEndpoint endpoint = Inr (portal, iqn, l, None))"
  using assms by (auto simp: parseISCSIEndpoint_def MalformedEndpoint_def Let_def)

lemma parseISCSIEndpoint_example:
  "parseISCSIEndpoint ''iscsi://10.0.0.1/iqn.test/1'' = Inr (''10.0.0.1'', ''iqn.test'', ''1'', None) \<and>
   parseISCSIEndpoint ''tcp://...'' =
     Inr ([], [], [], Some (Errorf ''endpoint does not start with iscsi://''))"
  by (simp add: parseISCSIEndpoint_def)

text \<open>
  Claim C2 fails on the code. The slice expression \<open>endpoint[0:8]\<close> is evaluated
  before anything is compared, so an endpoint of fewer than 8 bytes makes
  \<open>parseISCSIEndpoint\<close> panic (slice bounds out of range); no error is returned.
\<close>

theorem parseISCSIEndpoint_short_panics:
  "length endpoint < 8 \<Longrightarrow>
     parseISCSIEndpoint endpoint = Inl (SliceBoundsOutOfRange 8 (length endpoint))"
  by (simp add: parseISCSIEndpoint_def)

theorem parseISCSIEndpoint_short_panics_witness:
  "parseISCSIEndpoint ''tcp://'' = Inl (SliceBoundsOutOfRange 8 6) \<and>
   parseISCSIEndpoint [] = Inl (SliceBoundsOutOfRange 8 0)"
  using parseISCSIEndpoint_short_panics [of "''tcp://''"] parseISCSIEndpoint_short_panics [of "[]"]
  by simp

section \<open>PortalNormalizer\<close>

text \<open>
  Claim C9. \<open>portalMounter\<close> is a function of its argument alone, defined on every
  string: a portal without the byte \<open>:\<close> gets \<open>:3260\<close> appended, a portal with
  one is returned as it is.
\<close>

theorem portalMounter_default_port:
  "(CHR '':'' \<notin> set portal \<longrightarrow> portalMounter portal = portal @ '':3260'') \<and>
   (CHR '':'' \<in> set portal \<longrightarrow> portalMounter portal = portal)"
  by (simp add: portalMounter_def Contains_single)

theorem portalMounter_default_port_witness:
  "portalMounter ''10.0.0.2'' = ''10.0.0.2:3260'' \<and>
   portalMounter ''10.0.0.2:3261'' = ''10.0.0.2:3261''"
  using portalMounter_default_port [of "''10.0.0.2''"]
    portalMounter_default_port [of "''10.0.0.2:3261''"]
  by simp

section \<open>SecretExtractor\<close>

text \<open>
  Claim C4. A blob that the decoder rejects gives the empty mapping, and both
  extractors return the absent scope and no error for it. The blob cannot be told
  from an empty one: it gives the same mapping, and the same result of
  \<open>getISCSIInfo\<close>, as a blob that is rejected as well (the empty string is one)
  or that decodes to the empty mapping.
\<close>

theorem parseSecret_undecodable:
  assumes "unmarshal blob = None"
  shows "parseSecret unmarshal blob = [] \<and>
         parseSessionSecret (parseSecret unmarshal blob) = (emptySecrets, None) \<and>
         parseDiscoverySecret (parseSecret unmarshal blob) = (emptySecrets, None) \<and>
         (unmarshal blob' = None \<or> unmarshal blob' = Some [] \<longrightarrow>
            parseSecret unmarshal blob = parseSecret unmarshal blob' \<and>
            getISCSIInfo unmarshal n req (ctx\<lparr>Secret := blob\<rparr>) =
              getISCSIInfo unmarshal n req (ctx\<lparr>Secret := blob'\<rparr>))"
  using assms
  by (auto simp: parseSecret_def parseSessionSecret_def parseDiscoverySecret_def
      getISCSIInfo_unfold split: sum.splits)

theorem parseSecret_undecodable_witness:
  "jsonUnmarshal ''{broken'' = None \<and> jsonUnmarshal [] = None \<and> jsonUnmarshal ''{}'' = Some [] \<and>
   parseSecret jsonUnmarshal ''{broken'' = [] \<and>
   parseSessionSecret (parseSecret jsonUnmarshal ''{broken'') = (emptySecrets, None) \<and>
   parseDiscoverySecret (parseSecret jsonUnmarshal ''{broken'') = (emptySecrets, None) \<and>
   getISCSIInfo jsonUnmarshal 64 exampleReq (exampleCtx\<lparr>Secret := ''{broken''\<rparr>) =
     getISCSIInfo jsonUnmarshal 64 exampleReq (exampleCtx\<lparr>Secret := []\<rparr>) \<and>
   getISCSIInfo jsonUnmarshal 64 exampleReq (exampleCtx\<lparr>Secret := ''{broken''\<rparr>) =
     getISCSIInfo jsonUnmarshal 64 exampleReq (exampleCtx\<lparr>Secret := ''{}''\<rparr>)"
proof -
  have a: "jsonUnmarshal ''{broken'' = None" by (simp add: run_json)
  have b: "jsonUnmarshal [] = None" by (simp add: run_json)
  have c: "jsonUnmarshal ''{}'' = Some []" by (simp add: run_json)
  show ?thesis
    using a b c
      parseSecret_undecodable [where unmarshal = jsonUnmarshal and blob = "''{broken''"
        and blob' = "[]" and n = 64 and req = exampleReq and ctx = exampleCtx]
      parseSecret_undecodable [where unmarshal = jsonUnmarshal and blob = "''{broken''"
        and blob' = "''{}''" and n = 64 and req = exampleReq and ctx = exampleCtx]
    by simp
qed

text \<open>
  Claim C8, as stated, fails: the blob \<open>{}\<close> decodes to the empty mapping, which
  has none of the fields of either scope, and both extractors return the absent
  scope with no error for it.
\<close>

theorem empty_mapping_no_error:
  "parseSecret jsonUnmarshal ''{}'' = [] \<and>
   missing (parseSecret jsonUnmarshal ''{}'') ''node.session.auth.username'' \<and>
   missing (parseSecret jsonUnmarshal ''{}'') ''node.sendtargets.auth.username'' \<and>
   parseSessionSecret (parseSecret jsonUnmarshal ''{}'') = (emptySecrets, None) \<and>
   parseDiscoverySecret (parseSecret jsonUnmarshal ''{}'') = (emptySecrets, None)"
  by (simp add: run_json parseSecret_def missing_def parseSessionSecret_def parseDiscoverySecret_def)

text \<open>
  Claim C8, amended. A mapping that has the four fields of a scope gives the
  scope of type \<open>chap\<close> that holds these four values, and no error. A mapping
  that is not empty and lacks a field of a scope gives
  \<open>IncompleteCredentialScope\<close> for the first field that is missing, in the order
  username, password, username_in, password_in, together with the zero scope.
  Whatever the mapping, the scope returned is either the zero scope or the
  whole scope: no extractor returns a scope with some of the fields.
\<close>

theorem parseSecrets_all_or_nothing:
  "(map_of m ''node.session.auth.username'' = Some u \<and>
    map_of m ''node.session.auth.password'' = Some p \<and>
    map_of m ''node.session.auth.username_in'' = Some ui \<and>
    map_of m ''node.session.auth.password_in'' = Some pi \<longrightarrow>
      parseSessionSecret m =
        (\<lparr>SecretsType = ''chap'', UserName = u, Password = p, UserNameIn = ui, PasswordIn = pi\<rparr>,
         None)) \<and>
   (map_of m ''node.sendtargets.auth.username'' = Some u \<and>
    map_of m ''node.sendtargets.auth.password'' = Some p \<and>
    map_of m ''node.sendtargets.auth.username_in'' = Some ui \<and>
    map_of m ''node.sendtargets.auth.password_in'' = Some pi \<longrightarrow>
      parseDiscoverySecret m =
        (\<lparr>SecretsType = ''chap'', UserName = u, Password = p, UserNameIn = ui, PasswordIn = pi\<rparr>,
         None)) \<and>
   (m \<noteq> [] \<and> f \<in> set sessionFields \<and> missing m f \<longrightarrow>
      (\<exists>g\<in>set sessionFields. missing m g \<and> find (missing m) sessionFields = Some g \<and>
         parseSessionSecret m = (emptySecrets, Some (IncompleteCredentialScope g)))) \<and>
   (m \<noteq> [] \<and> f \<in> set discoveryFields \<and> missing m f \<longrightarrow>
      (\<exists>g\<in>set discoveryFields. missing m g \<and> find (missing m) discoveryFields = Some g \<and>
         parseDiscoverySecret m = (emptySecrets, Some (IncompleteCredentialScope g)))) \<and>
   (fst (parseSessionSecret m) = emptySecrets \<or>
      snd (parseSessionSecret m) = None \<and> (\<forall>g\<in>set sessionFields. \<not> missing m g) \<and>
      fst (parseSessionSecret m) = populated m sessionFields) \<and>
   (fst (parseDiscoverySecret m) = emptySecrets \<or>
      snd (parseDiscoverySecret m) = None \<and> (\<forall>g\<in>set discoveryFields. \<not> missing m g) \<and>
      fst (parseDiscoverySecret m) = populated m discoveryFields)"
proof -
  have s: "\<exists>g\<in>set sessionFields. missing m g \<and> find (missing m) sessionFields = Some g"
    if "f \<in> set sessionFields" "missing m f"
    using that by (cases "find (missing m) sessionFields") (auto simp: find_None_iff dest: find_missing)
  have d: "\<exists>g\<in>set discoveryFields. missing m g \<and> find (missing m) discoveryFields = Some g"
    if "f \<in> set discoveryFields" "missing m f"
    using that by (cases "find (missing m) discoveryFields") (auto simp: find_None_iff dest: find_missing)
  have a: "parseSessionSecret m =
        (\<lparr>SecretsType = ''chap'', UserName = u, Password = p, UserNameIn = ui, PasswordIn = pi\<rparr>,
         None)"
    if "map_of m ''node.session.auth.username'' = Some u"
      "map_of m ''node.session.auth.password'' = Some p"
      "map_of m ''node.session.auth.username_in'' = Some ui"
      "map_of m ''node.session.auth.password_in'' = Some pi"
    using that by (auto simp: parseSessionSecret_def)
  have b: "parseDiscoverySecret m =
        (\<lparr>SecretsType = ''chap'', UserName = u, Password = p, UserNameIn = ui, PasswordIn = pi\<rparr>,
         None)"
    if "map_of m ''node.sendtargets.auth.username'' = Some u"
      "map_of m ''node.sendtargets.auth.password'' = Some p"
      "map_of m ''node.sendtargets.auth.username_in'' = Some ui"
      "map_of m ''node.sendtargets.auth.password_in'' = Some pi"
    using that by (auto simp: parseDiscoverySecret_def)
  have e: "fst (parseSessionSecret m) = emptySecrets \<or>
      snd (parseSessionSecret m) = None \<and> (\<forall>g\<in>set sessionFields. \<not> missing m g) \<and>
      fst (parseSessionSecret m) = populated m sessionFields"
  proof (cases "find (missing m) sessionFields")
    case None
    then have "\<forall>g\<in>set sessionFields. \<not> missing m g"
      by (simp add: find_None_iff)
    with None show ?thesis
      by (simp add: parseSessionSecret_find)
  next
    case (Some g)
    then show ?thesis
      by (simp add: parseSessionSecret_find)
  qed
  have g: "fst (parseDiscoverySecret m) = emptySecrets \<or>
      snd (parseDiscoverySecret m) = None \<and> (\<forall>g\<in>set discoveryFields. \<not> missing m g) \<and>
      fst (parseDiscoverySecret m) = populated m discoveryFields"
  proof (cases "find (missing m) discoveryFields")
    case None
    then have "\<forall>g\<in>set discoveryFields. \<not> missing m g"
      by (simp add: find_None_iff)
    with None show ?thesis
      by (simp add: parseDiscoverySecret_find)
  next
    case (Some g)
    then show ?thesis
      by (simp add: parseDiscoverySecret_find)
  qed
  from s d a b e g show ?thesis
    by (auto simp: parseSessionSecret_find parseDiscoverySecret_find)
qed

theorem parseSecrets_all_or_nothing_witness:
  "parseSecret jsonUnmarshal (jsonObject sessionMembers) = sessionMembers \<and>
   parseSessionSecret sessionMembers =
     (\<lparr>SecretsType = ''chap'', UserName = ''u1'', Password = ''p1'', UserNameIn = ''u2'',
       PasswordIn = ''p2''\<rparr>, None) \<and>
   parseDiscoverySecret sessionMembers =
     (emptySecrets, Some (IncompleteCredentialScope ''node.sendtargets.auth.username''))"
proof -
  have "sessionMembers \<noteq> []" "''node.sendtargets.auth.password'' \<in> set discoveryFields"
    "missing sessionMembers ''node.sendtargets.auth.password''"
    "find (missing sessionMembers) discoveryFields = Some ''node.sendtargets.auth.username''"
    by (simp_all add: sessionMembers_def discoveryFields_def missing_def)
  moreover have "map_of sessionMembers ''node.session.auth.username'' = Some ''u1''"
    "map_of sessionMembers ''node.session.auth.password'' = Some ''p1''"
    "map_of sessionMembers ''node.session.auth.username_in'' = Some ''u2''"
    "map_of sessionMembers ''node.session.auth.password_in'' = Some ''p2''"
    by (simp_all add: sessionMembers_def)
  ultimately show ?thesis
    using parseSecrets_all_or_nothing [where m = sessionMembers and u = "''u1''" and p = "''p1''"
        and ui = "''u2''" and pi = "''p2''" and f = "''node.sendtargets.auth.password''"]
    by (auto simp: parseSecret_def decode_session)
qed

section \<open>ConnectionDescriptorBuilder\<close>

text \<open>
  Claim C6. With a non-empty target portal and target name, a LUN that
  \<open>strconv.Atoi\<close> accepts and both extractions without error, \<open>getISCSIInfo\<close>
  returns a descriptor. Its portal sequence is the normalized target portal
  followed by the normalized elements of the split portal list, one for one:
  nothing is dropped, so duplicates stay.
\<close>

theorem getISCSIInfo_portals:
  assumes "TargetPortal ctx \<noteq> []" and "IQN ctx \<noteq> []" and "Portals_ctx ctx \<noteq> []"
    and "Atoi n (Lun ctx) = Inr l"
    and "snd (parseSessionSecret (parseSecret u (Secret ctx))) = None"
    and "snd (parseDiscoverySecret (parseSecret u (Secret ctx))) = None"
  shows "\<exists>d. getISCSIInfo u n req ctx = Inr d \<and>
           hd (Portals d) = portalMounter (TargetPortal ctx) \<and>
           Portals d = portalMounter (TargetPortal ctx) #
             map portalMounter (Split (Portals_ctx ctx) (CHR '','')) \<and>
           length (Portals d) = 1 + length (Split (Portals_ctx ctx) (CHR '',''))"
proof -
  from assms(4) have "Lun ctx \<noteq> []"
    by (auto simp: Atoi_Nil)
  with assms show ?thesis
    by (simp add: getISCSIInfo_unfold)
qed

theorem getISCSIInfo_portals_witness:
  "\<exists>d. getISCSIInfo jsonUnmarshal 64 exampleReq exampleCtx = Inr d \<and>
     Portals d = [''10.0.0.1:3260'', ''10.0.0.1:3260'', ''10.0.0.2:3260''] \<and> lun d = 0"
proof -
  have "Atoi 64 (Lun exampleCtx) = Inr 0"
    by (simp add: run_ctx)
  moreover have "jsonUnmarshal (Secret exampleCtx) = None"
    by (simp add: run_json exampleCtx_def)
  ultimately show ?thesis
    using getISCSIInfo_portals [of exampleCtx 64 0 jsonUnmarshal exampleReq]
    by (auto simp: run_ctx getISCSIInfo_unfold portalMounter_def)
qed

text \<open>
  Claim C1, as stated, fails: with both flag strings \<open>"true"\<close> and a credential
  blob that yields no scope, \<open>getISCSIInfo\<close> returns a descriptor whose two flags
  are true and whose two scopes are absent.
\<close>

theorem chap_flag_without_scope:
  "getISCSIInfo jsonUnmarshal 64 exampleReq
     (exampleCtx\<lparr>DiscoveryCHAPAuth := ''true'', SessionCHAPAuth := ''true''\<rparr>) =
   Inr \<lparr>Portals = [''10.0.0.1:3260'', ''10.0.0.1:3260'', ''10.0.0.2:3260''],
        Iqn = ''iqn.2020-01.test:disk1'', lun = 0, Iface = [], chapDiscovery = True,
        chapSession = True, secret = [], sessionSecret = emptySecrets,
        discoverySecret = emptySecrets, InitiatorName = [], VolName = ''vol-1''\<rparr>"
  by (simp add: getISCSIInfo_unfold run_ctx run_json portalMounter_def)

text \<open>
  Claim C1, amended. The flags record what was requested and nothing else: in
  every descriptor that \<open>getISCSIInfo\<close> returns, each flag is true exactly when
  its flag string is \<open>"true"\<close>, and the same context with any other two flag
  strings is accepted as well. Whether the scopes are present depends on the
  mapping alone: both are absent when it is empty, and when it is not, it has
  every field of the two scopes and both are populated.
\<close>

theorem getISCSIInfo_chap_flags:
  assumes "getISCSIInfo u n req ctx = Inr d"
  shows "chapDiscovery d = (DiscoveryCHAPAuth ctx = ''true'') \<and>
         chapSession d = (SessionCHAPAuth ctx = ''true'') \<and>
         (parseSecret u (Secret ctx) = [] \<longrightarrow>
            sessionSecret d = emptySecrets \<and> discoverySecret d = emptySecrets) \<and>
         (parseSecret u (Secret ctx) \<noteq> [] \<longrightarrow>
            sessionSecret d = populated (parseSecret u (Secret ctx)) sessionFields \<and>
            discoverySecret d = populated (parseSecret u (Secret ctx)) discoveryFields \<and>
            sessionSecret d \<noteq> emptySecrets \<and> discoverySecret d \<noteq> emptySecrets \<and>
            (\<forall>f\<in>set (sessionFields @ discoveryFields).
               \<not> missing (parseSecret u (Secret ctx)) f)) \<and>
         (\<forall>a b. \<exists>d'. getISCSIInfo u n req (ctx\<lparr>DiscoveryCHAPAuth := a, SessionCHAPAuth := b\<rparr>) =
            Inr d')"
proof -
  define m where "m = parseSecret u (Secret ctx)"
  have "\<forall>f\<in>set (sessionFields @ discoveryFields). \<not> missing m f" if "m \<noteq> []"
  proof -
    from assms have "snd (parseSessionSecret m) = None" "snd (parseDiscoverySecret m) = None"
      by (auto simp: getISCSIInfo_unfold m_def split: if_splits option.splits sum.splits)
    with that have "find (missing m) sessionFields = None"
      "find (missing m) discoveryFields = None"
      by (auto simp: parseSessionSecret_find parseDiscoverySecret_find split: option.splits)
    then show ?thesis
      by (auto simp: find_None_iff)
  qed
  moreover from assms
  have "chapDiscovery d = (DiscoveryCHAPAuth ctx = ''true'') \<and>
         chapSession d = (SessionCHAPAuth ctx = ''true'') \<and>
         (m = [] \<longrightarrow> sessionSecret d = emptySecrets \<and> discoverySecret d = emptySecrets) \<and>
         (m \<noteq> [] \<longrightarrow>
            sessionSecret d = populated m sessionFields \<and>
            discoverySecret d = populated m discoveryFields \<and>
            sessionSecret d \<noteq> emptySecrets \<and> discoverySecret d \<noteq> emptySecrets) \<and>
         (\<forall>a b. \<exists>d'. getISCSIInfo u n req (ctx\<lparr>DiscoveryCHAPAuth := a, SessionCHAPAuth := b\<rparr>) =
            Inr d')"
    by (auto simp: getISCSIInfo_unfold parseSessionSecret_find parseDiscoverySecret_find
        populated_not_empty m_def split: if_splits option.splits sum.splits)
  ultimately show ?thesis
    unfolding m_def by blast
qed

theorem getISCSIInfo_chap_flags_witness:
  "(\<exists>d. getISCSIInfo jsonUnmarshal 64 exampleReq
          (exampleCtx\<lparr>DiscoveryCHAPAuth := ''true''\<rparr>) = Inr d \<and>
      chapDiscovery d \<and> \<not> chapSession d \<and> discoverySecret d = emptySecrets) \<and>
   (\<exists>d. getISCSIInfo jsonUnmarshal 64 exampleReq
          (exampleCtx\<lparr>Secret := jsonObject (sessionMembers @ discoveryMembers)\<rparr>) = Inr d \<and>
      \<not> chapDiscovery d \<and> \<not> chapSession d \<and>
      sessionSecret d = populated (sessionMembers @ discoveryMembers) sessionFields \<and>
      discoverySecret d \<noteq> emptySecrets)"
proof -
  let ?c = "exampleCtx\<lparr>DiscoveryCHAPAuth := ''true''\<rparr>"
  let ?c' = "exampleCtx\<lparr>Secret := jsonObject (sessionMembers @ discoveryMembers)\<rparr>"
  have "\<exists>d. getISCSIInfo jsonUnmarshal 64 exampleReq ?c = Inr d"
    by (simp add: getISCSIInfo_unfold run_ctx run_json)
  then obtain d where d: "getISCSIInfo jsonUnmarshal 64 exampleReq ?c = Inr d" ..
  have m: "parseSecret jsonUnmarshal (Secret ?c) = []"
    by (simp add: run_ctx run_json)
  have m': "parseSecret jsonUnmarshal (Secret ?c') = sessionMembers @ discoveryMembers"
    by (simp add: parseSecret_def decode_both)
  have "snd (parseSessionSecret (sessionMembers @ discoveryMembers)) = None"
    "snd (parseDiscoverySecret (sessionMembers @ discoveryMembers)) = None"
    by (simp_all add: parseSessionSecret_def parseDiscoverySecret_def sessionMembers_def
        discoveryMembers_def)
  moreover have "Atoi 64 (Lun ?c') = Inr 0" "TargetPortal ?c' \<noteq> []" "IQN ?c' \<noteq> []"
    "Lun ?c' \<noteq> []"
    by (simp_all add: exampleCtx_def Atoi_def ParseUint_def isDigit_def digitVal_def)
  ultimately have "\<exists>d. getISCSIInfo jsonUnmarshal 64 exampleReq ?c' = Inr d"
    unfolding getISCSIInfo_unfold m' by simp
  then obtain d' where d': "getISCSIInfo jsonUnmarshal 64 exampleReq ?c' = Inr d'" ..
  have ne: "sessionMembers @ discoveryMembers \<noteq> []"
    by (simp add: sessionMembers_def)
  from getISCSIInfo_chap_flags [OF d] d m have "chapDiscovery d \<and> \<not> chapSession d \<and>
      discoverySecret d = emptySecrets"
    by (simp add: exampleCtx_def)
  moreover have "DiscoveryCHAPAuth ?c' \<noteq> ''true''" "SessionCHAPAuth ?c' \<noteq> ''true''"
    by (simp_all add: exampleCtx_def)
  with getISCSIInfo_chap_flags [OF d', unfolded m'] ne
  have "\<not> chapDiscovery d' \<and> \<not> chapSession d' \<and>
      sessionSecret d' = populated (sessionMembers @ discoveryMembers) sessionFields \<and>
      discoverySecret d' \<noteq> emptySecrets"
    by blast
  ultimately show ?thesis
    using d d' by simp
qed

text \<open>
  Claim C10. When \<open>strconv.Atoi\<close> accepts the LUN string with a value outside
  the signed 32-bit range, \<open>getISCSIInfo\<close> returns no error of \<open>strconv.Atoi\<close>,
  and where the other checks pass it returns a descriptor whose LUN is the
  value reduced modulo \<open>2 ^ 32\<close>, read as a signed number: it differs from the
  value parsed.
\<close>

theorem getISCSIInfo_lun_wraps:
  assumes "Atoi n (Lun ctx) = Inr l" and "l < - (2 ^ 31) \<or> 2 ^ 31 \<le> l"
  shows "(\<forall>e. getISCSIInfo u n req ctx = Inl e \<longrightarrow> \<not> InvalidLun e) \<and>
         (TargetPortal ctx \<noteq> [] \<and> IQN ctx \<noteq> [] \<and>
          snd (parseSessionSecret (parseSecret u (Secret ctx))) = None \<and>
          snd (parseDiscoverySecret (parseSecret u (Secret ctx))) = None \<longrightarrow>
          (\<exists>d. getISCSIInfo u n req ctx = Inr d \<and> lun d = word_of_int l \<and>
             - (2 ^ 31) \<le> sint (lun d) \<and> sint (lun d) < 2 ^ 31 \<and>
             sint (lun d) mod 2 ^ 32 = l mod 2 ^ 32 \<and> sint (lun d) \<noteq> l))"
proof -
  have "\<not> InvalidLun e" if "getISCSIInfo u n req ctx = Inl e" for e
    using getISCSIInfo_error_cases [OF that] assms(1)
    by (auto simp: MissingTargetInfo_def InvalidLun_def
        dest!: parseSessionSecret_error parseDiscoverySecret_error
        simp: IncompleteCredentialScope_def)
  moreover have "Lun ctx \<noteq> []"
    using assms(1) by (auto simp: Atoi_Nil)
  moreover have "sint (word_of_int l :: 32 word) \<noteq> l"
    using assms(2) by (auto simp: sint_sbintrunc' signed_take_bit_int_eq_self_iff)
  moreover have "sint (word_of_int l :: 32 word) mod 2 ^ 32 = l mod 2 ^ 32"
  proof -
    have "take_bit 32 (signed_take_bit 31 l) = take_bit 32 l"
      by (simp add: take_bit_signed_take_bit)
    then show ?thesis
      by (simp add: sint_sbintrunc' take_bit_eq_mod)
  qed
  moreover have "- (2 ^ 31) \<le> sint (word_of_int l :: 32 word)"
    "sint (word_of_int l :: 32 word) < 2 ^ 31"
    using sint_ge [of "word_of_int l :: 32 word"] sint_lt [of "word_of_int l :: 32 word"]
    by simp_all
  ultimately show ?thesis
    using assms(1) by (simp add: getISCSIInfo_unfold)
qed

theorem getISCSIInfo_lun_wraps_witness:
  "Atoi 64 ''4294967297'' = Inr 4294967297 \<and>
   (\<exists>d. getISCSIInfo jsonUnmarshal 64 exampleReq (exampleCtx\<lparr>Lun := ''4294967297''\<rparr>) = Inr d \<and>
      lun d = 1 \<and> sint (lun d) = 1)"
proof -
  have a: "Atoi 64 (Lun (exampleCtx\<lparr>Lun := ''4294967297''\<rparr>)) = Inr 4294967297"
    by (simp add: run_ctx)
  have b: "jsonUnmarshal (Secret exampleCtx) = None"
    by (simp add: run_json exampleCtx_def)
  show ?thesis
    using a b
      getISCSIInfo_lun_wraps [where n = 64 and ctx = "exampleCtx\<lparr>Lun := ''4294967297''\<rparr>"
        and l = 4294967297 and u = jsonUnmarshal and req = exampleReq]
    by (auto simp: run_ctx)
qed


text \<open>
  Claim C5, as stated, fails: \<open>getISCSIInfo\<close> extracts the two scopes before it
  parses the LUN. With the LUN \<open>abc\<close> and a mapping that has the session username
  alone, the result is the error of the missing session password, which is no
  error of \<open>strconv.Atoi\<close>.
\<close>

theorem scope_error_before_lun_error:
  "Atoi 64 ''abc'' = Inl (NumError ''Atoi'' ''abc'' ErrSyntax) \<and>
   parseSecret jsonUnmarshal (jsonObject [(''node.session.auth.username'', ''u1'')]) =
     [(''node.session.auth.username'', ''u1'')] \<and>
   getISCSIInfo jsonUnmarshal 64 exampleReq
     (exampleCtx\<lparr>Lun := ''abc'',
        Secret := jsonObject [(''node.session.auth.username'', ''u1'')]\<rparr>) =
     Inl (IncompleteCredentialScope ''node.session.auth.password'') \<and>
   \<not> InvalidLun (IncompleteCredentialScope ''node.session.auth.password'')"
  by (simp add: getISCSIInfo_unfold run_ctx decode_partial IncompleteCredentialScope_def
      InvalidLun_def)

text \<open>
  Claim C5, amended. For a context with a non-empty target portal, target name
  and LUN and a mapping that is not empty and lacks a field of a scope,
  \<open>getISCSIInfo\<close> fails with \<open>IncompleteCredentialScope\<close> for a missing field,
  whatever the LUN string is. An error of \<open>strconv.Atoi\<close> is returned only when
  both extractions have succeeded.
\<close>

theorem getISCSIInfo_scopes_before_lun:
  "(TargetPortal ctx \<noteq> [] \<and> IQN ctx \<noteq> [] \<and> Lun ctx \<noteq> [] \<and>
    parseSecret u (Secret ctx) \<noteq> [] \<and> f \<in> set (sessionFields @ discoveryFields) \<and>
    missing (parseSecret u (Secret ctx)) f \<longrightarrow>
      (\<exists>g\<in>set (sessionFields @ discoveryFields). missing (parseSecret u (Secret ctx)) g \<and>
         getISCSIInfo u n req ctx = Inl (IncompleteCredentialScope g))) \<and>
   (getISCSIInfo u n req ctx = Inl e \<and> InvalidLun e \<longrightarrow>
      snd (parseSessionSecret (parseSecret u (Secret ctx))) = None \<and>
      snd (parseDiscoverySecret (parseSecret u (Secret ctx))) = None \<and>
      Atoi n (Lun ctx) = Inl e)"
proof -
  define m where "m = parseSecret u (Secret ctx)"
  have a: "\<exists>g\<in>set (sessionFields @ discoveryFields). missing m g \<and>
         getISCSIInfo u n req ctx = Inl (IncompleteCredentialScope g)"
    if ok: "TargetPortal ctx \<noteq> []" "IQN ctx \<noteq> []" "Lun ctx \<noteq> []" and m: "m \<noteq> []"
      and f: "f \<in> set (sessionFields @ discoveryFields)" "missing m f"
  proof (cases "find (missing m) sessionFields")
    case (Some g)
    then have "g \<in> set sessionFields \<and> missing m g"
      by (rule find_missing)
    moreover from Some ok m have "getISCSIInfo u n req ctx = Inl (IncompleteCredentialScope g)"
      by (simp add: getISCSIInfo_unfold parseSessionSecret_find m_def [symmetric])
    ultimately show ?thesis by auto
  next
    case None
    then have "\<forall>g\<in>set sessionFields. \<not> missing m g"
      by (simp add: find_None_iff)
    with f have "f \<in> set discoveryFields" by auto
    with f(2) obtain g where g: "find (missing m) discoveryFields = Some g"
      by (cases "find (missing m) discoveryFields") (auto simp: find_None_iff)
    then have "g \<in> set discoveryFields \<and> missing m g"
      by (rule find_missing)
    moreover from None g ok m have "getISCSIInfo u n req ctx = Inl (IncompleteCredentialScope g)"
      by (simp add: getISCSIInfo_unfold parseSessionSecret_find parseDiscoverySecret_find
          m_def [symmetric])
    ultimately show ?thesis by auto
  qed
  have b: "snd (parseSessionSecret m) = None \<and> snd (parseDiscoverySecret m) = None \<and>
      Atoi n (Lun ctx) = Inl e"
    if "getISCSIInfo u n req ctx = Inl e" "InvalidLun e"
    using getISCSIInfo_error_cases [OF that(1)] that(2)
    by (auto simp: m_def MissingTargetInfo_def InvalidLun_def IncompleteCredentialScope_def
        dest!: parseSessionSecret_error parseDiscoverySecret_error)
  from a b show ?thesis
    unfolding m_def by blast
qed

theorem getISCSIInfo_scopes_before_lun_witness:
  "(\<exists>g\<in>set (sessionFields @ discoveryFields).
      getISCSIInfo jsonUnmarshal 64 exampleReq
        (exampleCtx\<lparr>Lun := ''abc'',
           Secret := jsonObject [(''node.session.auth.username'', ''u1'')]\<rparr>) =
      Inl (IncompleteCredentialScope g)) \<and>
   getISCSIInfo jsonUnmarshal 64 exampleReq (exampleCtx\<lparr>Lun := ''abc''\<rparr>) =
     Inl (NumError ''Atoi'' ''abc'' ErrSyntax) \<and>
   snd (parseSessionSecret (parseSecret jsonUnmarshal [])) = None \<and>
   snd (parseDiscoverySecret (parseSecret jsonUnmarshal [])) = None"
proof -
  let ?m = "[(''node.session.auth.username'', ''u1'')]"
  let ?c = "exampleCtx\<lparr>Lun := ''abc'', Secret := jsonObject ?m\<rparr>"
  have "parseSecret jsonUnmarshal (Secret ?c) = ?m"
    by (simp add: parseSecret_def decode_partial)
  moreover have "''node.session.auth.password'' \<in> set (sessionFields @ discoveryFields)"
    "missing ?m ''node.session.auth.password''"
    "TargetPortal ?c \<noteq> []" "IQN ?c \<noteq> []" "Lun ?c \<noteq> []"
    by (simp_all add: sessionFields_def missing_def exampleCtx_def)
  moreover have e: "getISCSIInfo jsonUnmarshal 64 exampleReq (exampleCtx\<lparr>Lun := ''abc''\<rparr>) =
     Inl (NumError ''Atoi'' ''abc'' ErrSyntax)"
    by (simp add: getISCSIInfo_unfold run_ctx run_json)
  moreover have "InvalidLun (NumError ''Atoi'' ''abc'' ErrSyntax)"
    by (simp add: InvalidLun_def)
  ultimately show ?thesis
    using getISCSIInfo_scopes_before_lun [where ctx = ?c and u = jsonUnmarshal and n = 64
        and req = exampleReq and f = "''node.session.auth.password''"]
      getISCSIInfo_scopes_before_lun [where ctx = "exampleCtx\<lparr>Lun := ''abc''\<rparr>"
        and u = jsonUnmarshal and n = 64 and req = exampleReq
        and e = "NumError ''Atoi'' ''abc'' ErrSyntax"]
    by (auto simp: exampleCtx_def)
qed

text \<open>
  Claim C3 fails on the code. \<open>strings.Split\<close> never returns an empty slice, so
  the check \<open>len(portals) == 0\<close> never holds: no context makes \<open>getISCSIInfo\<close>
  return the error \<open>no portals provided\<close>. With the empty portal list the split
  is the one empty string, and a descriptor that is returned has the portal
  \<open>:3260\<close> after the target portal.
\<close>

theorem getISCSIInfo_empty_portal_list:
  "getISCSIInfo u n req ctx \<noteq> Inl NoPortalsProvided \<and>
   (Portals_ctx ctx = [] \<longrightarrow>
      (\<forall>d. getISCSIInfo u n req ctx = Inr d \<longrightarrow>
         Portals d = [portalMounter (TargetPortal ctx), '':3260'']))"
proof -
  have "e \<noteq> NoPortalsProvided" if "getISCSIInfo u n req ctx = Inl e" for e
    using getISCSIInfo_error_cases [OF that]
    by (auto simp: MissingTargetInfo_def NoPortalsProvided_def IncompleteCredentialScope_def
        InvalidLun_def
        dest!: parseSessionSecret_error parseDiscoverySecret_error Atoi_error)
  then have "getISCSIInfo u n req ctx \<noteq> Inl NoPortalsProvided"
    by blast
  then show ?thesis
    by (auto simp: getISCSIInfo_unfold portalMounter_def split: if_splits option.splits sum.splits)
qed

theorem getISCSIInfo_empty_portal_list_witness:
  "getISCSIInfo jsonUnmarshal 64 exampleReq (exampleCtx\<lparr>Portals_ctx := []\<rparr>) =
   Inr \<lparr>Portals = [''10.0.0.1:3260'', '':3260''],
        Iqn = ''iqn.2020-01.test:disk1'', lun = 0, Iface = [], chapDiscovery = False,
        chapSession = False, secret = [], sessionSecret = emptySecrets,
        discoverySecret = emptySecrets, InitiatorName = [], VolName = ''vol-1''\<rparr>"
proof -
  have "\<exists>d. getISCSIInfo jsonUnmarshal 64 exampleReq (exampleCtx\<lparr>Portals_ctx := []\<rparr>) = Inr d"
    by (simp add: getISCSIInfo_unfold run_ctx run_json)
  then obtain d where d: "getISCSIInfo jsonUnmarshal 64 exampleReq (exampleCtx\<lparr>Portals_ctx := []\<rparr>) = Inr d" ..
  from getISCSIInfo_empty_portal_list [where ctx = "exampleCtx\<lparr>Portals_ctx := []\<rparr>"
      and u = jsonUnmarshal and n = 64 and req = exampleReq] d
  have "Portals d = [''10.0.0.1:3260'', '':3260'']"
    by (simp add: exampleCtx_def portalMounter_def)
  with d show ?thesis
    by (auto simp: getISCSIInfo_unfold run_ctx run_json split: if_splits)
qed

section \<open>ConnectorAssembler\<close>

text \<open>
  Claim C7. \<open>buildISCSIConnector\<close> returns a connector for every descriptor. When
  the session scope of the descriptor is absent, the connector carries neither
  session nor discovery credentials, whatever the discovery scope is. The session
  credentials are attached whenever the session scope is present, and the
  connector has discovery credentials exactly when both scopes are present;
  they are then the discovery scope of the descriptor.
\<close>

theorem buildISCSIConnector_secrets:
  "\<exists>c. buildISCSIConnector d = Inr c \<and>
     (sessionSecret d = emptySecrets \<longrightarrow>
        SessionSecrets c = emptySecrets \<and> DiscoverySecrets c = emptySecrets) \<and>
     (sessionSecret d \<noteq> emptySecrets \<longrightarrow> SessionSecrets c = sessionSecret d) \<and>
     (DiscoverySecrets c \<noteq> emptySecrets) =
        (sessionSecret d \<noteq> emptySecrets \<and> discoverySecret d \<noteq> emptySecrets) \<and>
     (sessionSecret d \<noteq> emptySecrets \<longrightarrow> DiscoverySecrets c = discoverySecret d)"
proof -
  obtain ts where "buildTargets (Iqn d) [] (Portals d) = Inr ts"
    using buildTargets_total by blast
  then show ?thesis
    by (simp add: buildISCSIConnector_def Let_def)
qed

theorem buildISCSIConnector_secrets_witness:
  "(\<exists>c. buildISCSIConnector discoveryOnlyDisk = Inr c \<and>
      discoverySecret discoveryOnlyDisk \<noteq> emptySecrets \<and>
      SessionSecrets c = emptySecrets \<and> DiscoverySecrets c = emptySecrets) \<and>
   (\<exists>c. buildISCSIConnector (discoveryOnlyDisk\<lparr>sessionSecret := chapSecrets\<rparr>) = Inr c \<and>
      SessionSecrets c = chapSecrets \<and> DiscoverySecrets c = chapSecrets)"
  using buildISCSIConnector_secrets [of discoveryOnlyDisk]
    buildISCSIConnector_secrets [of "discoveryOnlyDisk\<lparr>sessionSecret := chapSecrets\<rparr>"]
  by (auto simp: discoveryOnlyDisk_def chapSecrets_def emptySecrets_def)

end
